theory Spec2Isabelle
  imports Complex_Main "HOL-Library.AList" "HOL-Library.Sublist" "HOL-Library.Multiset"
begin

section \<open>JavaScript numbers\<close>

text \<open>
  A JavaScript number is a finite value, one of the two infinities, or NaN. Finite values
  are modelled as exact reals: rounding and the sign of zero are outside the model. The
  special values follow IEEE 754: NaN absorbs every operation, opposite infinities
  cancel to NaN, zero times infinity is NaN, and every comparison with NaN is false.
\<close>

datatype jsnum = Num real | PosInf | NegInf | NaN

fun isFinite :: "jsnum \<Rightarrow> bool" where
  "isFinite (Num a) = True"
| "isFinite PosInf = False"
| "isFinite NegInf = False"
| "isFinite NaN = False"

fun isNaN :: "jsnum \<Rightarrow> bool" where
  "isNaN NaN = True"
| "isNaN (Num a) = False"
| "isNaN PosInf = False"
| "isNaN NegInf = False"

fun js_add :: "jsnum \<Rightarrow> jsnum \<Rightarrow> jsnum" where
  "js_add (Num a) (Num b) = Num (a + b)"
| "js_add NaN b = NaN"
| "js_add a NaN = NaN"
| "js_add PosInf NegInf = NaN"
| "js_add NegInf PosInf = NaN"
| "js_add PosInf b = PosInf"
| "js_add NegInf b = NegInf"
| "js_add a PosInf = PosInf"
| "js_add a NegInf = NegInf"

fun js_neg :: "jsnum \<Rightarrow> jsnum" where
  "js_neg (Num a) = Num (- a)"
| "js_neg PosInf = NegInf"
| "js_neg NegInf = PosInf"
| "js_neg NaN = NaN"

definition js_signed_inf :: "bool \<Rightarrow> jsnum" where
  "js_signed_inf negative = (if negative then NegInf else PosInf)"

fun js_mul :: "jsnum \<Rightarrow> jsnum \<Rightarrow> jsnum" where
  "js_mul (Num a) (Num b) = Num (a * b)"
| "js_mul NaN b = NaN"
| "js_mul a NaN = NaN"
| "js_mul PosInf (Num b) = (if b = 0 then NaN else js_signed_inf (b < 0))"
| "js_mul NegInf (Num b) = (if b = 0 then NaN else js_signed_inf (0 < b))"
| "js_mul (Num a) PosInf = (if a = 0 then NaN else js_signed_inf (a < 0))"
| "js_mul (Num a) NegInf = (if a = 0 then NaN else js_signed_inf (0 < a))"
| "js_mul PosInf PosInf = PosInf"
| "js_mul PosInf NegInf = NegInf"
| "js_mul NegInf PosInf = NegInf"
| "js_mul NegInf NegInf = PosInf"

text \<open>
  Division of a finite non-zero value by zero gives the infinity of the dividend's sign
  (the zero is taken as positive); a finite value over an infinity is zero.
\<close>

fun js_div :: "jsnum \<Rightarrow> jsnum \<Rightarrow> jsnum" where
  "js_div (Num a) (Num b) =
     (if b = 0 then (if a = 0 then NaN else js_signed_inf (a < 0)) else Num (a / b))"
| "js_div NaN b = NaN"
| "js_div a NaN = NaN"
| "js_div (Num a) PosInf = Num 0"
| "js_div (Num a) NegInf = Num 0"
| "js_div PosInf (Num b) = js_signed_inf (b < 0)"
| "js_div NegInf (Num b) = js_signed_inf (0 \<le> b)"
| "js_div PosInf PosInf = NaN"
| "js_div PosInf NegInf = NaN"
| "js_div NegInf PosInf = NaN"
| "js_div NegInf NegInf = NaN"

fun js_less :: "jsnum \<Rightarrow> jsnum \<Rightarrow> bool" where
  "js_less (Num a) (Num b) = (a < b)"
| "js_less NaN b = False"
| "js_less a NaN = False"
| "js_less NegInf NegInf = False"
| "js_less NegInf b = True"
| "js_less a NegInf = False"
| "js_less PosInf b = False"
| "js_less a PosInf = True"

fun js_eq :: "jsnum \<Rightarrow> jsnum \<Rightarrow> bool" where
  "js_eq NaN b = False"
| "js_eq a NaN = False"
| "js_eq a b = (a = b)"

instantiation jsnum :: "{plus, minus, uminus, times, inverse, ord}"
begin

definition plus_jsnum :: "jsnum \<Rightarrow> jsnum \<Rightarrow> jsnum" where
  "plus_jsnum a b = js_add a b"

definition uminus_jsnum :: "jsnum \<Rightarrow> jsnum" where
  "uminus_jsnum a = js_neg a"

definition minus_jsnum :: "jsnum \<Rightarrow> jsnum \<Rightarrow> jsnum" where
  "minus_jsnum a b = js_add a (js_neg b)"

definition times_jsnum :: "jsnum \<Rightarrow> jsnum \<Rightarrow> jsnum" where
  "times_jsnum a b = js_mul a b"

definition divide_jsnum :: "jsnum \<Rightarrow> jsnum \<Rightarrow> jsnum" where
  "divide_jsnum a b = js_div a b"

definition inverse_jsnum :: "jsnum \<Rightarrow> jsnum" where
  "inverse_jsnum a = js_div (Num 1) a"

definition less_jsnum :: "jsnum \<Rightarrow> jsnum \<Rightarrow> bool" where
  "less_jsnum a b = js_less a b"

definition less_eq_jsnum :: "jsnum \<Rightarrow> jsnum \<Rightarrow> bool" where
  "less_eq_jsnum a b = (js_less a b \<or> js_eq a b)"

instance ..

end

lemmas jsnum_arith =
  plus_jsnum_def uminus_jsnum_def minus_jsnum_def times_jsnum_def divide_jsnum_def
  less_jsnum_def less_eq_jsnum_def js_signed_inf_def

text \<open>\<open>Math.min\<close> and \<open>Math.max\<close>: NaN if either argument is NaN.\<close>

definition Math_min :: "jsnum \<Rightarrow> jsnum \<Rightarrow> jsnum" where
  "Math_min a b = (if isNaN a \<or> isNaN b then NaN else if js_less b a then b else a)"

definition Math_max :: "jsnum \<Rightarrow> jsnum \<Rightarrow> jsnum" where
  "Math_max a b = (if isNaN a \<or> isNaN b then NaN else if js_less a b then b else a)"

text \<open>
  The remainder operator \<open>%\<close> on finite numbers truncates the quotient towards zero, so
  the result has the sign of the dividend.
\<close>

definition js_trunc :: "real \<Rightarrow> int" where
  "js_trunc r = (if 0 \<le> r then \<lfloor>r\<rfloor> else \<lceil>r\<rceil>)"

definition js_rem :: "real \<Rightarrow> real \<Rightarrow> real" where
  "js_rem a b = a - b * of_int (js_trunc (a / b))"

text \<open>\<open>Math.atan2(y, x)\<close> on finite numbers, the angle of the point \<open>(x, y)\<close> in \<open>(-pi, pi]\<close>.\<close>

definition Math_atan2 :: "real \<Rightarrow> real \<Rightarrow> real" where
  "Math_atan2 y x =
     (if 0 < x then arctan (y / x)
      else if x < 0 \<and> 0 \<le> y then arctan (y / x) + pi
      else if x < 0 \<and> y < 0 then arctan (y / x) - pi
      else if 0 < y then pi / 2
      else if y < 0 then - (pi / 2)
      else 0)"

text \<open>Template-literal conversion of an integer to its decimal string.\<close>

definition digit_char :: "nat \<Rightarrow> char" where
  "digit_char d = char_of (48 + d)"

fun nat_to_string :: "nat \<Rightarrow> string" where
  "nat_to_string n =
     (if n < 10 then [digit_char n] else nat_to_string (n div 10) @ [digit_char (n mod 10)])"

definition int_to_string :: "int \<Rightarrow> string" where
  "int_to_string i = (if i < 0 then CHR ''-'' # nat_to_string (nat (- i)) else nat_to_string (nat i))"

text \<open>A string or an absent property is truthy exactly when it is a non-empty string.\<close>

fun truthy :: "string option \<Rightarrow> bool" where
  "truthy None = False"
| "truthy (Some s) = (s \<noteq> [])"

declare nat_to_string.simps [simp del]

section \<open>Data model\<close>

text \<open>
  The per-floor JSON files hold node records \<open>{id, x, y, type, name?, connectionId?}\<close> and
  edge records \<open>{from, to, dist?, barrierFreeBlocked?}\<close>. An identifier is taken in its string
  form, as the template literal of \<open>loadAllData\<close> reads it; \<open>json_dist\<close> is \<open>None\<close> when the
  property is not a number.
\<close>

record node_json =
  json_id :: string
  json_x :: real
  json_y :: real
  json_type :: string
  json_name :: "string option"
  json_connectionId :: "string option"

record edge_json =
  json_from :: string
  json_to :: string
  json_dist :: "real option"
  json_barrierFreeBlocked :: bool

record floor_json =
  json_nodes :: "node_json list"
  json_edges :: "edge_json list"

text \<open>The node objects of \<open>globalNodes\<close> and the edge objects of \<open>globalEdges\<close>.\<close>

record node =
  node_id :: string
  node_originalId :: string
  node_floorId :: int
  node_x :: real
  node_baseX :: real
  node_localY :: real
  node_y :: real
  node_type :: string
  node_name :: "string option"
  node_connectionId :: "string option"

record edge =
  edge_from :: string
  edge_to :: string
  edge_dist :: real
  edge_type :: "string option"
  edge_floorId :: "int option"

text \<open>
  An entry of the adjacency cache. \<open>buildGlobalGraph\<close> writes the three properties
  \<open>to\<close>, \<open>dist\<close> and \<open>type\<close>; \<open>calculatePath\<close> also reads \<open>barrierFreeBlocked\<close> from an entry,
  so the record has that property too, \<open>None\<close> when the object does not carry it.
\<close>

record adj_entry =
  adj_to :: string
  adj_dist :: real
  adj_type :: "string option"
  adj_barrierFreeBlocked :: "bool option"

type_synonym adjacency = "(string \<times> adj_entry list) list"

record image =
  img_width :: nat
  img_height :: nat

record floor_conf =
  conf_id :: int

record floor_visual =
  vis_scale :: real
  vis_opacity :: real
  vis_y :: real

text \<open>The zoom transform \<open>{k, x, y}\<close> of d3-zoom.\<close>

record zoom_transform =
  t_k :: jsnum
  t_x :: jsnum
  t_y :: jsnum

text \<open>
  The engine object. \<open>idMap\<close> and \<open>globalNodes\<close> share their node objects: every node
  object is pushed to \<open>globalNodes\<close> when it is created, so \<open>idMap\<close> is modelled as a map
  from an identifier to the position of its object in \<open>globalNodes\<close>, and a coordinate
  written through one is seen through the other. \<open>adj\<close> is \<open>None\<close> until the graph is built.
\<close>

record engine =
  floorsConfig :: "floor_conf list"
  images :: "int \<rightharpoonup> image"
  floorOffsets :: "int \<rightharpoonup> real"
  floorCropX :: "int \<rightharpoonup> real"
  floorVisuals :: "int \<rightharpoonup> floor_visual"
  totalHeight :: real
  idMap :: "string \<rightharpoonup> nat"
  globalNodes :: "node list"
  globalEdges :: "edge list"
  adj :: "adjacency option"
  accessibilityMode :: bool
  enableAutoRotation :: bool
  path :: "string list"
  startNode :: "nat option"
  rotation :: real
  transform :: zoom_transform
  canvas_width :: nat
  canvas_height :: nat

definition getNode :: "engine \<Rightarrow> string \<Rightarrow> node option" where
  "getNode s i =
     (case idMap s i of
        None \<Rightarrow> None
      | Some p \<Rightarrow> if p < length (globalNodes s) then Some (globalNodes s ! p) else None)"

subsection \<open>AppConfig\<close>

definition FLOORS :: "floor_conf list" where
  "FLOORS = [\<lparr>conf_id = 1\<rparr>, \<lparr>conf_id = 2\<rparr>, \<lparr>conf_id = 3\<rparr>, \<lparr>conf_id = 4\<rparr>]"

definition FLOOR_GAP :: real where
  "FLOOR_GAP = 200"

text \<open>\<open>AppConfig.FLOOR_GAP || 200\<close>: zero is falsy.\<close>

definition defaultGap :: real where
  "defaultGap = (if FLOOR_GAP = 0 then 200 else FLOOR_GAP)"

section \<open>buildGlobalGraph\<close>

text \<open>
  The connection map is an object keyed by name or connection id, modelled as an
  association list in insertion order. The enumeration order of \<open>Object.values\<close> only
  decides the order in which transfer edges are appended.
\<close>

definition connectionKey :: "node \<Rightarrow> string option" where
  "connectionKey n =
     (if truthy (node_name n) \<and> (node_type n = ''stairs'' \<or> node_type n = ''elevator'')
      then node_name n
      else if truthy (node_connectionId n) then node_connectionId n
      else None)"

definition groupNode :: "node \<Rightarrow> (string \<times> node list) list \<Rightarrow> (string \<times> node list) list" where
  "groupNode n cm =
     (case connectionKey n of
        None \<Rightarrow> cm
      | Some key \<Rightarrow>
          (case map_of cm key of
             None \<Rightarrow> cm @ [(key, [n])]
           | Some ns \<Rightarrow> AList.update key (ns @ [n]) cm))"

definition connectionMap :: "node list \<Rightarrow> (string \<times> node list) list" where
  "connectionMap ns = fold groupNode ns []"

text \<open>The index pairs \<open>i < j\<close> of the nested loops, in the order the loops visit them.\<close>

fun pairs :: "'a list \<Rightarrow> ('a \<times> 'a) list" where
  "pairs [] = []"
| "pairs (a # as) = map (Pair a) as @ pairs as"

definition floorDist :: "node \<Rightarrow> node \<Rightarrow> int" where
  "floorDist n1 n2 =
     (case (find (\<lambda>f. conf_id f = node_floorId n1) FLOORS,
            find (\<lambda>f. conf_id f = node_floorId n2) FLOORS) of
        (Some f1, Some f2) \<Rightarrow> \<bar>conf_id f1 - conf_id f2\<bar>
      | _ \<Rightarrow> 1)"

definition transferType :: "node \<Rightarrow> node \<Rightarrow> string" where
  "transferType n1 n2 =
     (if node_type n1 = ''elevator'' \<and> node_type n2 = ''elevator'' then ''elevator''
      else if node_type n1 = ''stairs'' \<and> node_type n2 = ''stairs'' then ''stairs''
      else ''transfer'')"

definition transferEdge :: "node \<Rightarrow> node \<Rightarrow> edge" where
  "transferEdge n1 n2 =
     \<lparr>edge_from = node_id n1, edge_to = node_id n2,
      edge_dist = real_of_int (floorDist n1 n2 * 150),
      edge_type = Some (transferType n1 n2), edge_floorId = None\<rparr>"

definition groupEdges :: "node list \<Rightarrow> edge list" where
  "groupEdges nodes =
     (if length nodes > 1 then map (\<lambda>(n1, n2). transferEdge n1 n2) (pairs nodes) else [])"

definition transferEdges :: "node list \<Rightarrow> edge list" where
  "transferEdges ns = concat (map (\<lambda>(key, nodes). groupEdges nodes) (connectionMap ns))"

subsection \<open>The adjacency cache\<close>

definition adj_ensure :: "string \<Rightarrow> adjacency \<Rightarrow> adjacency" where
  "adj_ensure key a = (if map_of a key = None then AList.update key [] a else a)"

definition adj_push :: "string \<Rightarrow> adj_entry \<Rightarrow> adjacency \<Rightarrow> adjacency" where
  "adj_push key e a =
     AList.update key ((case map_of a key of None \<Rightarrow> [] | Some es \<Rightarrow> es) @ [e]) a"

definition addAdjacency :: "edge \<Rightarrow> adjacency \<Rightarrow> adjacency" where
  "addAdjacency e a =
     (let a1 = adj_ensure (edge_from e) a;
          a2 = adj_ensure (edge_to e) a1;
          a3 = adj_push (edge_from e)
                 \<lparr>adj_to = edge_to e, adj_dist = edge_dist e, adj_type = edge_type e,
                  adj_barrierFreeBlocked = None\<rparr> a2
      in adj_push (edge_to e)
           \<lparr>adj_to = edge_from e, adj_dist = edge_dist e, adj_type = edge_type e,
            adj_barrierFreeBlocked = None\<rparr> a3)"

definition buildAdjacency :: "node list \<Rightarrow> edge list \<Rightarrow> adjacency" where
  "buildAdjacency ns es =
     fold addAdjacency es (fold (\<lambda>n a. AList.update (node_id n) [] a) ns [])"

definition buildGlobalGraph :: "engine \<Rightarrow> engine" where
  "buildGlobalGraph s =
     (let es = globalEdges s @ transferEdges (globalNodes s)
      in s\<lparr>globalEdges := es, adj := Some (buildAdjacency (globalNodes s) es)\<rparr>)"

section \<open>updateFloorLayout\<close>

text \<open>
  \<open>(img && img.height) ? img.height : 1000\<close>: the height of a floor's image, 1000 when the
  image is missing or has height zero.
\<close>

definition baseHeight :: "(int \<rightharpoonup> image) \<Rightarrow> int \<Rightarrow> real" where
  "baseHeight imgs i =
     (case imgs i of
        None \<Rightarrow> 1000
      | Some img \<Rightarrow> if img_height img \<noteq> 0 then real (img_height img) else 1000)"

text \<open>\<open>[...floorsConfig].sort((a, b) => b.id - a.id)\<close>: a stable sort, descending by id.\<close>

definition sortedFloors :: "floor_conf list \<Rightarrow> floor_conf list" where
  "sortedFloors cfgs = sort_key (\<lambda>c. - conf_id c) cfgs"

definition defaultVisuals :: "int \<rightharpoonup> floor_visual" where
  "defaultVisuals =
     fold (\<lambda>f m. m(conf_id f \<mapsto> \<lparr>vis_scale = 1, vis_opacity = 1, vis_y = 0\<rparr>)) FLOORS Map.empty"

definition intermediates :: "engine \<Rightarrow> string list \<Rightarrow> int set" where
  "intermediates s pathNodes =
     (if length pathNodes > 0 then
        (case (getNode s (pathNodes ! 0), getNode s (pathNodes ! (length pathNodes - 1))) of
           (Some sNode, Some eNode) \<Rightarrow>
             if node_floorId sNode \<noteq> node_floorId eNode then
               (let minF = min (node_floorId sNode) (node_floorId eNode);
                    maxF = max (node_floorId sNode) (node_floorId eNode)
                in set (map conf_id (filter (\<lambda>f. conf_id f > minF \<and> conf_id f < maxF) FLOORS)))
             else {}
         | _ \<Rightarrow> {})
      else {})"

text \<open>The style of one floor: its scale, its opacity and the gap below it.\<close>

definition floorStyle :: "int set \<Rightarrow> int \<Rightarrow> real \<times> real \<times> real" where
  "floorStyle mids i = (if i \<in> mids then (0.6, 0.3, defaultGap * 0.1) else (1.0, 1.0, defaultGap))"

definition layoutStep ::
  "(int \<rightharpoonup> image) \<Rightarrow> int set \<Rightarrow> floor_conf \<Rightarrow> (int \<rightharpoonup> floor_visual) \<times> real
     \<Rightarrow> (int \<rightharpoonup> floor_visual) \<times> real" where
  "layoutStep imgs mids conf acc =
     (case acc of (vis, currentY) \<Rightarrow>
        (case floorStyle mids (conf_id conf) of (scale, opacity, gap) \<Rightarrow>
           (vis(conf_id conf \<mapsto> \<lparr>vis_scale = scale, vis_opacity = opacity, vis_y = currentY\<rparr>),
            currentY + (baseHeight imgs (conf_id conf) * scale + gap))))"

text \<open>
  The node loop. Every node object is created with a \<open>baseX\<close>, so the test
  \<open>node.baseX !== undefined\<close> holds.
\<close>

definition placeNode :: "(int \<rightharpoonup> floor_visual) \<Rightarrow> node \<Rightarrow> node" where
  "placeNode vis n =
     (case vis (node_floorId n) of
        None \<Rightarrow> n
      | Some v \<Rightarrow> n\<lparr>node_y := node_localY n * vis_scale v + vis_y v,
                    node_x := node_baseX n * vis_scale v\<rparr>)"

definition updateFloorLayout :: "engine \<Rightarrow> string list \<Rightarrow> engine" where
  "updateFloorLayout s pathNodes =
     (case fold (layoutStep (images s) (intermediates s pathNodes))
             (sortedFloors (floorsConfig s)) (defaultVisuals, 0) of
        (vis, currentY) \<Rightarrow>
          s\<lparr>floorVisuals := vis, totalHeight := currentY,
            globalNodes := map (placeNode vis) (globalNodes s)\<rparr>)"

section \<open>loadAllData\<close>

text \<open>
  The images and the JSON documents come from the network: \<open>imgs\<close> gives the image of a
  floor and \<open>fetch\<close> its JSON document, \<open>None\<close> when the request failed. The requests
  of the floors run concurrently and each document is processed in one piece when it
  arrives; the model processes the floors in the order of the configuration.
\<close>

definition TARGET_WIDTH :: real where
  "TARGET_WIDTH = 940"

definition cropOf :: "image option \<Rightarrow> real" where
  "cropOf img =
     (case img of
        None \<Rightarrow> 0
      | Some im \<Rightarrow> if real (img_width im) > TARGET_WIDTH then (real (img_width im) - TARGET_WIDTH) / 2 else 0)"

definition offsetStep ::
  "(int \<rightharpoonup> image) \<Rightarrow> floor_conf \<Rightarrow> (int \<rightharpoonup> real) \<times> (int \<rightharpoonup> real) \<times> real
     \<Rightarrow> (int \<rightharpoonup> real) \<times> (int \<rightharpoonup> real) \<times> real" where
  "offsetStep imgs conf acc =
     (case acc of (offs, crops, currentY) \<Rightarrow>
        (offs(conf_id conf \<mapsto> currentY),
         crops(conf_id conf \<mapsto> cropOf (imgs (conf_id conf))),
         currentY + baseHeight imgs (conf_id conf) + defaultGap))"

definition globalId :: "int \<Rightarrow> string \<Rightarrow> string" where
  "globalId fid i = int_to_string fid @ ''_'' @ i"

text \<open>
  The offsets of a floor are read from \<open>floorOffsets\<close> and \<open>floorCropX\<close>, which hold an entry
  for every configured floor by the time the documents are processed.
\<close>

definition numberAt :: "(int \<rightharpoonup> real) \<Rightarrow> int \<Rightarrow> real" where
  "numberAt m i = (case m i of None \<Rightarrow> 0 | Some v \<Rightarrow> v)"

definition loadNode :: "int \<Rightarrow> node_json \<Rightarrow> engine \<Rightarrow> engine" where
  "loadNode fid nj s =
     (let newId = globalId fid (json_id nj);
          xCrop = numberAt (floorCropX s) fid;
          yOffset = numberAt (floorOffsets s) fid;
          n = \<lparr>node_id = newId, node_originalId = json_id nj, node_floorId = fid,
               node_x = json_x nj - xCrop, node_baseX = json_x nj - xCrop,
               node_localY = json_y nj, node_y = json_y nj + yOffset,
               node_type = json_type nj, node_name = json_name nj,
               node_connectionId = json_connectionId nj\<rparr>
      in s\<lparr>idMap := (idMap s)(newId \<mapsto> length (globalNodes s)),
           globalNodes := globalNodes s @ [n]\<rparr>)"

definition loadEdge :: "int \<Rightarrow> edge_json \<Rightarrow> engine \<Rightarrow> engine" where
  "loadEdge fid ej s =
     (let fromId = globalId fid (json_from ej);
          toId = globalId fid (json_to ej)
      in if idMap s fromId \<noteq> None \<and> idMap s toId \<noteq> None then
           s\<lparr>globalEdges := globalEdges s @
               [\<lparr>edge_from = fromId, edge_to = toId,
                 edge_dist = (case json_dist ej of Some d \<Rightarrow> d | None \<Rightarrow> 1),
                 edge_type = None, edge_floorId = Some fid\<rparr>]\<rparr>
         else s)"

definition loadFloor :: "(int \<rightharpoonup> floor_json) \<Rightarrow> floor_conf \<Rightarrow> engine \<Rightarrow> engine" where
  "loadFloor fetch conf s =
     (case fetch (conf_id conf) of
        None \<Rightarrow> s
      | Some data \<Rightarrow>
          fold (loadEdge (conf_id conf)) (json_edges data)
            (fold (loadNode (conf_id conf)) (json_nodes data) s))"

definition loadAllData ::
  "engine \<Rightarrow> floor_conf list \<Rightarrow> (int \<rightharpoonup> image) \<Rightarrow> (int \<rightharpoonup> floor_json) \<Rightarrow> engine" where
  "loadAllData s cfgs imgs fetch =
     (let imgs' = restrict_map imgs (set (map conf_id cfgs));
          s0 = s\<lparr>floorsConfig := cfgs, globalNodes := [], globalEdges := [],
                 idMap := Map.empty, images := imgs'\<rparr>
      in case fold (offsetStep imgs') (sortedFloors cfgs) (Map.empty, Map.empty, 0) of
           (offs, crops, currentY) \<Rightarrow>
             (let s1 = s0\<lparr>floorOffsets := offs, floorCropX := crops, totalHeight := currentY\<rparr>;
                  s2 = fold (loadFloor fetch) cfgs s1
              in updateFloorLayout (buildGlobalGraph s2) []))"

section \<open>MinHeap\<close>

text \<open>
  The heap array holds objects \<open>{id, dist}\<close>. The two sifting loops are called with an index
  inside the array only: \<open>push\<close> sifts the last index up, \<open>pop\<close> sifts index 0 of a
  non-empty array down.
\<close>

record heap_item =
  item_id :: string
  item_dist :: real

definition heap_swap :: "heap_item list \<Rightarrow> nat \<Rightarrow> nat \<Rightarrow> heap_item list" where
  "heap_swap h i j = h[i := h ! j, j := h ! i]"

function bubbleUp :: "heap_item list \<Rightarrow> nat \<Rightarrow> heap_item list" where
  "bubbleUp h n =
     (if n > 0 then
        (let parent = (n - 1) div 2
         in if item_dist (h ! n) \<ge> item_dist (h ! parent) then h
            else bubbleUp (heap_swap h n parent) parent)
      else h)"
  by pat_completeness auto
termination
  by (relation "measure (\<lambda>(h, n). n)") auto

declare bubbleUp.simps [simp del]

text \<open>The index \<open>swap\<close> chosen by one round of \<open>_sinkDown\<close>, \<open>None\<close> for \<open>null\<close>.\<close>

definition sinkChoice :: "heap_item list \<Rightarrow> nat \<Rightarrow> nat option" where
  "sinkChoice h n =
     (let len = length h;
          left = 2 * n + 1;
          right = 2 * n + 2;
          swap1 = (if left < len \<and> item_dist (h ! left) < item_dist (h ! n) then Some left else None);
          swap2 = (if right < len \<and>
                      item_dist (h ! right) <
                        (case swap1 of Some sw \<Rightarrow> item_dist (h ! sw) | None \<Rightarrow> item_dist (h ! n))
                   then Some right else swap1)
      in swap2)"

lemma sinkChoice_bounds: "sinkChoice h n = Some sw \<Longrightarrow> n < sw \<and> sw < length h"
  by (auto simp: sinkChoice_def Let_def split: if_splits)

function sinkDown :: "heap_item list \<Rightarrow> nat \<Rightarrow> heap_item list" where
  "sinkDown h n =
     (case sinkChoice h n of
        None \<Rightarrow> h
      | Some sw \<Rightarrow> sinkDown (heap_swap h n sw) sw)"
  by pat_completeness auto
termination
  by (relation "measure (\<lambda>(h, n). length h - n)")
     (auto simp: heap_swap_def dest: sinkChoice_bounds)

declare sinkDown.simps [simp del]

definition heap_push :: "heap_item list \<Rightarrow> heap_item \<Rightarrow> heap_item list" where
  "heap_push h v = bubbleUp (h @ [v]) (length (h @ [v]) - 1)"

text \<open>\<open>pop\<close> returns the removed item (\<open>None\<close> for \<open>null\<close>) and the new array.\<close>

definition heap_pop :: "heap_item list \<Rightarrow> heap_item option \<times> heap_item list" where
  "heap_pop h =
     (if length h = 0 then (None, h)
      else
        (let minItem = h ! 0;
             endItem = last h;
             h1 = butlast h
         in if length h1 > 0 then (Some minItem, sinkDown (h1[0 := endItem]) 0)
            else (Some minItem, h1)))"

section \<open>Viewport\<close>

text \<open>
  d3-zoom: \<open>zoomIdentity\<close> is \<open>{k: 1, x: 0, y: 0}\<close>; \<open>t.translate(x, y)\<close> is \<open>t\<close> itself when both
  arguments are zero and \<open>{k, x + k * x', y + k * y'}\<close> otherwise; \<open>t.scale(k')\<close> is \<open>t\<close> itself
  when \<open>k'\<close> is one and \<open>{k * k', x, y}\<close> otherwise. A transition started with
  \<open>zoom.transform\<close> or with a rotation tween ends at its target; the model records the end
  of the transition.
\<close>

definition zoomIdentity :: zoom_transform where
  "zoomIdentity = \<lparr>t_k = Num 1, t_x = Num 0, t_y = Num 0\<rparr>"

definition d3_translate :: "zoom_transform \<Rightarrow> jsnum \<Rightarrow> jsnum \<Rightarrow> zoom_transform" where
  "d3_translate t dx dy =
     (if dx = Num 0 \<and> dy = Num 0 then t
      else \<lparr>t_k = t_k t, t_x = t_x t + t_k t * dx, t_y = t_y t + t_k t * dy\<rparr>)"

definition d3_scale :: "zoom_transform \<Rightarrow> jsnum \<Rightarrow> zoom_transform" where
  "d3_scale t f = (if f = Num 1 then t else \<lparr>t_k = t_k t * f, t_x = t_x t, t_y = t_y t\<rparr>)"

definition applyRotatedPan :: "engine \<Rightarrow> real \<Rightarrow> real \<Rightarrow> engine" where
  "applyRotatedPan s dx dy =
     (let rad = rotation s * pi / 180;
          cosv = cos rad;
          sinv = sin rad;
          dtx = dx * cosv + dy * sinv;
          dty = - dx * sinv + dy * cosv;
          newTransform =
            d3_scale (d3_translate zoomIdentity (t_x (transform s) + Num dtx) (t_y (transform s) + Num dty))
              (t_k (transform s))
      in s\<lparr>transform := newTransform\<rparr>)"

text \<open>The shortest signed turn from \<open>start\<close> to \<open>target\<close>, as both rotation sites compute it.\<close>

definition shortestDelta :: "real \<Rightarrow> real \<Rightarrow> real" where
  "shortestDelta target start =
     (let delta = js_rem (target - start) 360;
          delta1 = (if delta > 180 then delta - 360 else delta);
          delta2 = (if delta1 < - 180 then delta1 + 360 else delta1)
      in delta2)"

definition setRotation :: "engine \<Rightarrow> real \<Rightarrow> engine" where
  "setRotation s angle =
     (let startAngle = rotation s;
          targetAngle = startAngle + shortestDelta angle startAngle
      in s\<lparr>rotation := targetAngle\<rparr>)"

subsection \<open>fitToPath\<close>

definition pathBoundsStep ::
  "engine \<Rightarrow> string \<Rightarrow> jsnum \<times> jsnum \<times> jsnum \<times> jsnum \<Rightarrow> jsnum \<times> jsnum \<times> jsnum \<times> jsnum" where
  "pathBoundsStep s i acc =
     (case acc of (minX, minY, maxX, maxY) \<Rightarrow>
        (case getNode s i of
           None \<Rightarrow> acc
         | Some n \<Rightarrow>
             (Math_min minX (Num (node_x n)), Math_min minY (Num (node_y n)),
              Math_max maxX (Num (node_x n)), Math_max maxY (Num (node_y n)))))"

definition pathTargetTransform :: "engine \<Rightarrow> string list \<Rightarrow> zoom_transform" where
  "pathTargetTransform s pathNodes =
     (case fold (pathBoundsStep s) pathNodes (PosInf, PosInf, NegInf, NegInf) of
        (minX, minY, maxX, maxY) \<Rightarrow>
          (let padding = Num 100;
               width = maxX - minX + padding * Num 2;
               height = maxY - minY + padding * Num 2;
               cx = (minX + maxX) / Num 2;
               cy = (minY + maxY) / Num 2;
               scaleX = Num (real (canvas_width s)) / width;
               scaleY = Num (real (canvas_height s)) / height;
               scale0 = Math_min scaleX scaleY;
               scale1 = Math_min scale0 (Num 2.0);
               scale2 = Math_max scale1 (Num 0.2);
               tX = (Num (real (canvas_width s)) / Num 2) - (cx * scale2);
               tY = (Num (real (canvas_height s)) / Num 2) - (cy * scale2)
           in d3_scale (d3_translate zoomIdentity tX tY) scale2))"

definition pathTargetRotation :: "engine \<Rightarrow> string list \<Rightarrow> real" where
  "pathTargetRotation s pathNodes =
     (if enableAutoRotation s \<and> length pathNodes \<ge> 2 then
        (case (getNode s (pathNodes ! 0), getNode s (pathNodes ! 1)) of
           (Some n1, Some n2) \<Rightarrow>
             (let dx = node_x n2 - node_x n1;
                  dy = node_y n2 - node_y n1;
                  rad = Math_atan2 dy dx;
                  deg = rad * (180 / pi)
              in - 90 - deg + 15)
         | _ \<Rightarrow> rotation s)
      else if \<not> enableAutoRotation s then 0
      else rotation s)"

definition fitToPath :: "engine \<Rightarrow> string list \<Rightarrow> engine" where
  "fitToPath s pathNodes =
     (if length pathNodes = 0 then s
      else
        (let targetTransform = pathTargetTransform s pathNodes;
             targetRotation = pathTargetRotation s pathNodes;
             startRotation = rotation s;
             finalRotation = startRotation + shortestDelta targetRotation startRotation
         in s\<lparr>transform := targetTransform, rotation := finalRotation\<rparr>))"

subsection \<open>fitBounds\<close>

text \<open>The argument is an array of node objects; an element may be \<open>undefined\<close>.\<close>

definition boundsStep ::
  "node option \<Rightarrow> jsnum \<times> jsnum \<times> jsnum \<times> jsnum \<Rightarrow> jsnum \<times> jsnum \<times> jsnum \<times> jsnum" where
  "boundsStep no acc =
     (case acc of (minX, maxX, minY, maxY) \<Rightarrow>
        (case no of
           None \<Rightarrow> acc
         | Some n \<Rightarrow>
             (if Num (node_x n) < minX then Num (node_x n) else minX,
              if Num (node_x n) > maxX then Num (node_x n) else maxX,
              if Num (node_y n) < minY then Num (node_y n) else minY,
              if Num (node_y n) > maxY then Num (node_y n) else maxY)))"

definition fitBounds :: "engine \<Rightarrow> node option list \<Rightarrow> engine" where
  "fitBounds s nodes =
     (if length nodes = 0 then s
      else
        (case fold boundsStep nodes (PosInf, NegInf, PosInf, NegInf) of
           (minX, maxX, minY, maxY) \<Rightarrow>
             if minX = PosInf \<or> maxX = NegInf then s
             else
               (let padding = Num 100;
                    targetWidth0 = maxX - minX + (padding * Num 2);
                    targetHeight0 = maxY - minY + (padding * Num 2);
                    targetWidth = (if targetWidth0 \<le> Num 0 then Num 500 else targetWidth0);
                    targetHeight = (if targetHeight0 \<le> Num 0 then Num 500 else targetHeight0);
                    centerX = (minX + maxX) / Num 2;
                    centerY = (minY + maxY) / Num 2;
                    scaleX = Num (real (canvas_width s)) / targetWidth;
                    scaleY = Num (real (canvas_height s)) / targetHeight;
                    k0 = Math_min scaleX scaleY;
                    k1 = (if \<not> isFinite k0 \<or> isNaN k0 then Num 1 else k0);
                    k2 = Math_min (Math_max k1 (Num 0.2)) (Num 3);
                    tX = (Num (real (canvas_width s)) / Num 2) - (centerX * k2);
                    tY = (Num (real (canvas_height s)) / Num 2) - (centerY * k2)
                in if \<not> isFinite tX \<or> isNaN tX \<or> \<not> isFinite tY \<or> isNaN tY then s
                   else s\<lparr>transform := d3_scale (d3_translate zoomIdentity tX tY) k2\<rparr>)))"

section \<open>calculatePath\<close>

text \<open>
  The state of the search: the objects \<open>dists\<close> and \<open>prev\<close> (an absent key is
  \<open>undefined\<close>), the heap array of \<open>pq\<close>, the set \<open>visited\<close> in insertion order, and
  \<open>finalDestId\<close> (\<open>None\<close> for \<open>null\<close>).
\<close>

record search =
  dists :: "string \<rightharpoonup> real"
  prev :: "string \<rightharpoonup> string"
  pq :: "heap_item list"
  visited :: "string list"
  finalDestId :: "string option"

text \<open>
  The weight the accessibility logic gives an adjacency entry; \<open>None\<close> when the entry is
  skipped by \<open>continue\<close>.
\<close>

definition effectiveWeight :: "bool \<Rightarrow> adj_entry \<Rightarrow> real option" where
  "effectiveWeight accessibility e =
     (if accessibility then
        (if adj_barrierFreeBlocked e = Some True then None
         else if adj_type e = Some ''elevator'' then Some (adj_dist e * 0.1)
         else if adj_type e = Some ''stairs'' then Some (adj_dist e + 50000)
         else Some (adj_dist e))
      else
        (if adj_type e = Some ''elevator'' then Some (adj_dist e + 2000)
         else Some (adj_dist e)))"

text \<open>\<open>newDist < (dists[edge.to] ?? Infinity)\<close>\<close>

definition improves :: "real \<Rightarrow> real option \<Rightarrow> bool" where
  "improves newDist old = (case old of None \<Rightarrow> True | Some d \<Rightarrow> newDist < d)"

definition relaxEdge :: "bool \<Rightarrow> string \<Rightarrow> real \<Rightarrow> adj_entry \<Rightarrow> search \<Rightarrow> search" where
  "relaxEdge accessibility minId minDist e st =
     (case effectiveWeight accessibility e of
        None \<Rightarrow> st
      | Some weight \<Rightarrow>
          (let newDist = minDist + weight
           in if improves newDist (dists st (adj_to e)) then
                st\<lparr>dists := (dists st)(adj_to e \<mapsto> newDist),
                   prev := (prev st)(adj_to e \<mapsto> minId),
                   pq := heap_push (pq st) \<lparr>item_id = adj_to e, item_dist = newDist\<rparr>\<rparr>
              else st))"

text \<open>
  One round of the \<open>while\<close> loop, entered with a non-empty queue. \<open>break\<close> is the round
  that sets \<open>finalDestId\<close>; the loop below stops once it is set.
\<close>

definition searchStep :: "bool \<Rightarrow> adjacency \<Rightarrow> string set \<Rightarrow> search \<Rightarrow> search" where
  "searchStep accessibility a targetIds st =
     (case heap_pop (pq st) of
        (None, h) \<Rightarrow> st\<lparr>pq := h\<rparr>
      | (Some item, h) \<Rightarrow>
          (let minId = item_id item;
               minDist = item_dist item;
               st1 = st\<lparr>pq := h\<rparr>
           in if (case dists st1 minId of None \<Rightarrow> False | Some d \<Rightarrow> minDist > d) then st1
              else if minId \<in> set (visited st1) then st1
              else
                (let st2 = st1\<lparr>visited := visited st1 @ [minId]\<rparr>
                 in if minId \<in> targetIds then st2\<lparr>finalDestId := Some minId\<rparr>
                    else
                      (case map_of a minId of
                         None \<Rightarrow> st2
                       | Some es \<Rightarrow> fold (relaxEdge accessibility minId minDist) es st2))))"

lemma length_heap_swap: "length (heap_swap h i j) = length h"
  by (simp add: heap_swap_def)

lemma length_bubbleUp: "length (bubbleUp h n) = length h"
proof (induction h n rule: bubbleUp.induct)
  case (1 h n)
  show ?case
    using "1.IH" by (subst bubbleUp.simps) (simp add: Let_def length_heap_swap)
qed

lemma length_sinkDown: "length (sinkDown h n) = length h"
proof (induction h n rule: sinkDown.induct)
  case (1 h n)
  show ?case
    using "1.IH" by (subst sinkDown.simps) (simp add: length_heap_swap split: option.splits)
qed

lemma length_heap_push: "length (heap_push h v) = Suc (length h)"
  by (simp add: heap_push_def length_bubbleUp)

lemma heap_pop_nonempty:
  "h \<noteq> [] \<Longrightarrow> \<exists>item h'. heap_pop h = (Some item, h') \<and> Suc (length h') = length h"
  by (cases h) (auto simp: heap_pop_def Let_def length_sinkDown)

lemma relaxEdge_frame:
  "visited (relaxEdge acc m d e st) = visited st"
  "finalDestId (relaxEdge acc m d e st) = finalDestId st"
  "length (pq (relaxEdge acc m d e st)) \<le> Suc (length (pq st))"
  by (auto simp: relaxEdge_def Let_def length_heap_push split: option.splits)

lemma fold_relaxEdge_frame:
  "visited (fold (relaxEdge acc m d) es st) = visited st"
  "finalDestId (fold (relaxEdge acc m d) es st) = finalDestId st"
  "length (pq (fold (relaxEdge acc m d) es st)) \<le> length (pq st) + length es"
proof (induction es arbitrary: st)
  case Nil
  { case 1 show ?case by simp }
  { case 2 show ?case by simp }
  { case 3 show ?case by simp }
next
  case (Cons e es)
  { case 1 show ?case by (simp add: Cons.IH(1) relaxEdge_frame(1)) }
  { case 2 show ?case by (simp add: Cons.IH(2) relaxEdge_frame(2)) }
  { case 3
    have "length (pq (fold (relaxEdge acc m d) es (relaxEdge acc m d e st)))
            \<le> length (pq (relaxEdge acc m d e st)) + length es"
      by (rule Cons.IH(3))
    also have "\<dots> \<le> Suc (length (pq st)) + length es"
      using relaxEdge_frame(3)[of acc m d e st] by simp
    finally show ?case by simp }
qed

text \<open>
  The loop ends: every round removes an item from the queue, and the items it adds are
  paid for by the adjacency list of the node it has just marked visited.
\<close>

definition pending :: "adjacency \<Rightarrow> string list \<Rightarrow> nat" where
  "pending a vs = sum_list (map (\<lambda>(key, es). if key \<in> set vs then 0 else length es) a)"

definition searchMeasure :: "adjacency \<Rightarrow> search \<Rightarrow> nat" where
  "searchMeasure a st = length (pq st) + pending a (visited st)"

lemma pending_mono: "pending a (vs @ [m]) \<le> pending a vs"
  unfolding pending_def by (induction a) (auto simp: add_le_mono)

lemma pending_visit:
  "map_of a m = Some es \<Longrightarrow> m \<notin> set vs \<Longrightarrow> pending a (vs @ [m]) + length es \<le> pending a vs"
proof (induction a)
  case Nil
  then show ?case by simp
next
  case (Cons p a)
  obtain key es' where p: "p = (key, es')" by (cases p)
  show ?case
  proof (cases "key = m")
    case True
    with Cons.prems p have "es' = es" by simp
    with True p Cons.prems(2) pending_mono[of a vs m] show ?thesis
      by (simp add: pending_def)
  next
    case False
    with Cons p show ?thesis by (simp add: pending_def)
  qed
qed

lemma searchStep_decreases:
  assumes "pq st \<noteq> []"
  shows "searchMeasure a (searchStep acc a T st) < searchMeasure a st"
proof -
  obtain item h where pop: "heap_pop (pq st) = (Some item, h)" and len: "Suc (length h) = length (pq st)"
    using heap_pop_nonempty[OF assms] by blast
  let ?m = "item_id item"
  show ?thesis
  proof (cases "(case dists st ?m of None \<Rightarrow> False | Some d \<Rightarrow> item_dist item > d) \<or> ?m \<in> set (visited st)")
    case True
    then show ?thesis
      using pop len by (auto simp: searchStep_def searchMeasure_def Let_def)
  next
    case False
    note fresh = this
    show ?thesis
    proof (cases "?m \<in> T \<or> map_of a ?m = None")
      case True
      then show ?thesis
        using pop len fresh pending_mono[of a "visited st" ?m]
        by (auto simp: searchStep_def searchMeasure_def Let_def)
    next
      case False
      then obtain es where es: "map_of a ?m = Some es" and nt: "?m \<notin> T" by auto
      have "length (pq (fold (relaxEdge acc ?m (item_dist item)) es (st\<lparr>pq := h, visited := visited st @ [?m]\<rparr>)))
              \<le> length h + length es"
        using fold_relaxEdge_frame(3)[of acc ?m "item_dist item" es "st\<lparr>pq := h, visited := visited st @ [?m]\<rparr>"]
        by simp
      moreover have "pending a (visited st @ [?m]) + length es \<le> pending a (visited st)"
        using pending_visit[OF es] fresh by simp
      ultimately show ?thesis
        using pop len fresh es nt
        by (simp add: searchStep_def searchMeasure_def Let_def fold_relaxEdge_frame(1))
    qed
  qed
qed

function searchLoop :: "bool \<Rightarrow> adjacency \<Rightarrow> string set \<Rightarrow> search \<Rightarrow> search" where
  "searchLoop accessibility a targetIds st =
     (if length (pq st) > 0 \<and> finalDestId st = None
      then searchLoop accessibility a targetIds (searchStep accessibility a targetIds st)
      else st)"
  by pat_completeness auto
termination
  by (relation "measure (\<lambda>(acc, a, T, st). searchMeasure a st)")
     (auto intro: searchStep_decreases)

declare searchLoop.simps [simp del]

subsection \<open>Targets\<close>

text \<open>
  The keywords of the restroom queries are the Japanese words for male and female, each
  in two spellings; they are written as their UTF-8 bytes. A substring test on the bytes
  is the substring test on the characters.
\<close>

definition keywordsMale :: "string list" where
  "keywordsMale =
     [[CHR 0xE7, CHR 0x94, CHR 0xB7, CHR 0xE6, CHR 0x80, CHR 0xA7],
      [CHR 0xE7, CHR 0x94, CHR 0xB7, CHR 0xE5, CHR 0xAD, CHR 0x90]]"

definition keywordsFemale :: "string list" where
  "keywordsFemale =
     [[CHR 0xE5, CHR 0xA5, CHR 0xB3, CHR 0xE6, CHR 0x80, CHR 0xA7],
      [CHR 0xE5, CHR 0xA5, CHR 0xB3, CHR 0xE5, CHR 0xAD, CHR 0x90]]"

text \<open>\<open>n.name && n.name.includes(k)\<close>\<close>

definition nameIncludes :: "string option \<Rightarrow> string \<Rightarrow> bool" where
  "nameIncludes nm key = (case nm of None \<Rightarrow> False | Some str \<Rightarrow> str \<noteq> [] \<and> sublist key str)"

definition targetsOf :: "engine \<Rightarrow> string \<Rightarrow> string set" where
  "targetsOf s endId =
     (if endId = ''NEAREST_MALE'' \<or> endId = ''NEAREST_FEMALE'' \<or> endId = ''NEAREST_VENDING'' then
        (if endId = ''NEAREST_VENDING'' then
           set (map node_id (filter (\<lambda>n. node_type n = ''vending'') (globalNodes s)))
         else
           (let isMale = (endId = ''NEAREST_MALE'');
                keyword = (if isMale then keywordsMale else keywordsFemale)
            in set (map node_id
                     (filter (\<lambda>n. node_type n = ''toilet'' \<and> list_ex (nameIncludes (node_name n)) keyword)
                        (globalNodes s)))))
      else
        (case getNode s endId of
           Some eNode \<Rightarrow> {node_id eNode}
         | None \<Rightarrow> {}))"

subsection \<open>The route\<close>

text \<open>
  \<open>while (curr !== undefined) { this.path.unshift(curr); curr = prev[curr]; }\<close>. The loop
  runs forever on a cycle of \<open>prev\<close>; not returning is the value \<open>None\<close>.
\<close>

partial_function (option) unshiftLoop ::
  "(string \<rightharpoonup> string) \<Rightarrow> string option \<Rightarrow> string list \<Rightarrow> string list option" where
  "unshiftLoop prv cur pth =
     (case cur of
        None \<Rightarrow> Some pth
      | Some c \<Rightarrow> unshiftLoop prv (prv c) (c # pth))"

declare unshiftLoop.simps [code]

definition adjIsEmpty :: "engine \<Rightarrow> bool" where
  "adjIsEmpty s = (case adj s of None \<Rightarrow> True | Some a \<Rightarrow> length a = 0)"

definition initialSearch :: "string \<Rightarrow> search" where
  "initialSearch startKey =
     \<lparr>dists = [startKey \<mapsto> 0], prev = Map.empty,
      pq = heap_push [] \<lparr>item_id = startKey, item_dist = 0\<rparr>,
      visited = [], finalDestId = None\<rparr>"

text \<open>The search of one call: the graph it runs on and the state the loop ends in.\<close>

definition searchGraph :: "engine \<Rightarrow> adjacency" where
  "searchGraph s = (case adj s of None \<Rightarrow> [] | Some a \<Rightarrow> a)"

definition runSearch :: "engine \<Rightarrow> string \<Rightarrow> string set \<Rightarrow> search" where
  "runSearch s startKey targetIds =
     searchLoop (accessibilityMode s) (searchGraph s) targetIds (initialSearch startKey)"

definition calculatePath :: "engine \<Rightarrow> string \<Rightarrow> string \<Rightarrow> (string list \<times> engine) option" where
  "calculatePath s startId endId =
     (let s0 = s\<lparr>path := [], startNode := None\<rparr>
      in case getNode s0 startId of
           None \<Rightarrow> Some ([], s0)
         | Some sNode \<Rightarrow>
             (let targetIds = targetsOf s0 endId
              in if targetIds = {} then Some ([], s0)
                 else
                   (let s1 = (if adjIsEmpty s0 then buildGlobalGraph s0 else s0);
                        st = runSearch s1 (node_id sNode) targetIds
                    in case (case finalDestId st of
                               None \<Rightarrow> Some (path s1)
                             | Some d \<Rightarrow> unshiftLoop (prev st) (Some d) (path s1)) of
                         None \<Rightarrow> None
                       | Some p \<Rightarrow>
                           (let s2 = s1\<lparr>path := p\<rparr>;
                                s3 = (if length (path s2) > 0 then fitToPath s2 (path s2) else s2)
                            in Some (path s3, s3)))))"

section \<open>The engine after construction\<close>

text \<open>
  The constructor's state, for a canvas of the given size. \<open>idMap\<close>, \<open>adj\<close> and
  \<open>floorVisuals\<close> are not set before the first load.
\<close>

definition newEngine :: "nat \<Rightarrow> nat \<Rightarrow> engine" where
  "newEngine w h =
     \<lparr>floorsConfig = [], images = Map.empty, floorOffsets = Map.empty, floorCropX = Map.empty,
      floorVisuals = Map.empty, totalHeight = 0, idMap = Map.empty, globalNodes = [],
      globalEdges = [], adj = None, accessibilityMode = False, enableAutoRotation = True,
      path = [], startNode = None, rotation = 0,
      transform = \<lparr>t_k = Num 1, t_x = Num 0, t_y = Num 0\<rparr>,
      canvas_width = w, canvas_height = h\<rparr>"

section \<open>Rotation-aware pan\<close>

lemma js_unit_laws: "Num 0 + Num 1 * X = X" "Num 1 * X = X" "Num 0 + X = X"
  by (cases X; simp add: jsnum_arith)+

lemma d3_build: "d3_scale (d3_translate zoomIdentity X Y) K = \<lparr>t_k = K, t_x = X, t_y = Y\<rparr>"
  by (auto simp: d3_scale_def d3_translate_def zoomIdentity_def js_unit_laws)

text \<open>
  C6. A pan by the screen delta \<open>(dx, dy)\<close> at rotation \<open>\<theta>\<close> degrees changes nothing but the
  transform; it keeps the scale and adds the world delta
  \<open>dtx = dx cos \<theta> + dy sin \<theta>\<close>, \<open>dty = - dx sin \<theta> + dy cos \<theta>\<close> to the translation. At
  \<open>\<theta> = 90\<close> the screen delta \<open>(10, 0)\<close> is the world delta \<open>(0, -10)\<close>.
\<close>

theorem applyRotatedPan_world_delta:
  "applyRotatedPan s dx dy =
     s\<lparr>transform :=
         \<lparr>t_k = t_k (transform s),
          t_x = t_x (transform s) + Num (dx * cos (rotation s * pi / 180) + dy * sin (rotation s * pi / 180)),
          t_y = t_y (transform s) + Num (- dx * sin (rotation s * pi / 180) + dy * cos (rotation s * pi / 180))\<rparr>\<rparr>
   \<and> transform (applyRotatedPan (s\<lparr>rotation := 90, transform := \<lparr>t_k = K, t_x = Num tx, t_y = Num ty\<rparr>\<rparr>) 10 0)
       = \<lparr>t_k = K, t_x = Num (tx + 0), t_y = Num (ty + (- 10))\<rparr>"
  by (simp add: applyRotatedPan_def Let_def d3_build jsnum_arith)

theorem applyRotatedPan_world_delta_witness:
  "transform (applyRotatedPan ((newEngine 800 600)\<lparr>rotation := 90, transform := \<lparr>t_k = Num 2, t_x = Num 5, t_y = Num 7\<rparr>\<rparr>) 10 0)
     = \<lparr>t_k = Num 2, t_x = Num 5, t_y = Num (- 3)\<rparr>"
  using applyRotatedPan_world_delta[of "newEngine 800 600" 10 0 "Num 2" 5 7] by simp

section \<open>Shortest angular path\<close>

lemma js_rem_nonneg:
  assumes "0 < b" "0 \<le> a"
  shows "0 \<le> js_rem a b \<and> js_rem a b < b"
proof -
  have q: "0 \<le> a / b" using assms by simp
  have lo: "of_int \<lfloor>a / b\<rfloor> * b \<le> a" using floor_divide_lower[OF assms(1)] .
  have hi: "a < (of_int \<lfloor>a / b\<rfloor> + 1) * b" using floor_divide_upper[OF assms(1)] .
  show ?thesis using q lo hi by (simp add: js_rem_def js_trunc_def algebra_simps)
qed

lemma js_rem_neg:
  assumes "0 < b" "a < 0"
  shows "- b < js_rem a b \<and> js_rem a b \<le> 0"
proof -
  have q: "\<not> 0 \<le> a / b" using assms by (simp add: divide_less_0_iff not_le)
  have hi: "a \<le> of_int \<lceil>a / b\<rceil> * b" using ceiling_divide_upper[OF assms(1)] .
  have lo: "(of_int \<lceil>a / b\<rceil> - 1) * b < a" using ceiling_divide_lower[OF assms(1)] .
  show ?thesis using q lo hi by (simp add: js_rem_def js_trunc_def algebra_simps)
qed

lemma js_rem_360: "- 360 < js_rem a 360 \<and> js_rem a 360 < 360"
  using js_rem_nonneg[of 360 a] js_rem_neg[of 360 a] by (cases "0 \<le> a") auto

lemma shortestDelta_formula:
  "shortestDelta target start =
     (if js_rem (target - start) 360 > 180 then js_rem (target - start) 360 - 360
      else if js_rem (target - start) 360 < - 180 then js_rem (target - start) 360 + 360
      else js_rem (target - start) 360)"
  using js_rem_360[of "target - start"] by (simp add: shortestDelta_def Let_def)

lemma shortestDelta_bound: "\<bar>shortestDelta target start\<bar> \<le> 180"
  using js_rem_360[of "target - start"] by (auto simp: shortestDelta_def Let_def)

lemma shortestDelta_congruent:
  "\<exists>k::int. start + shortestDelta target start = target + 360 * of_int k"
proof -
  let ?t = "js_trunc ((target - start) / 360)"
  let ?r = "js_rem (target - start) 360"
  have r: "?r = (target - start) - 360 * of_int ?t"
    by (simp add: js_rem_def)
  show ?thesis
  proof (cases "?r > 180")
    case True
    then have "start + shortestDelta target start = target + 360 * of_int (- ?t - 1)"
      using r by (simp add: shortestDelta_formula)
    then show ?thesis by blast
  next
    case False
    show ?thesis
    proof (cases "?r < - 180")
      case True
      with False have "start + shortestDelta target start = target + 360 * of_int (- ?t + 1)"
        using r by (simp add: shortestDelta_formula)
      then show ?thesis by blast
    next
      case nl: False
      with False have "start + shortestDelta target start = target + 360 * of_int (- ?t)"
        using r by (simp add: shortestDelta_formula)
      then show ?thesis by blast
    qed
  qed
qed

lemma shortestDelta_example: "shortestDelta (- 170) 170 = 20"
  by (simp add: shortestDelta_def js_rem_def js_trunc_def Let_def)

text \<open>
  C7. Both rotation transitions, \<open>setRotation\<close> and the heading of \<open>fitToPath\<close>, end at
  \<open>current + delta\<close>, where \<open>delta\<close> is the remainder of \<open>target - current\<close> by 360, less 360
  when it is above 180 and plus 360 when it is below -180. The end is congruent to the
  requested target modulo 360 and at most 180 degrees from the current rotation. From
  170 to -170 the turn is +20 and ends at 190.
\<close>

theorem rotation_shortest_path:
  "rotation (setRotation s angle) = rotation s + shortestDelta angle (rotation s)
   \<and> (length pathNodes > 0 \<longrightarrow>
        rotation (fitToPath s pathNodes) =
          rotation s + shortestDelta (pathTargetRotation s pathNodes) (rotation s))
   \<and> shortestDelta target cur =
        (if js_rem (target - cur) 360 > 180 then js_rem (target - cur) 360 - 360
         else if js_rem (target - cur) 360 < - 180 then js_rem (target - cur) 360 + 360
         else js_rem (target - cur) 360)
   \<and> \<bar>(cur + shortestDelta target cur) - cur\<bar> \<le> 180
   \<and> (\<exists>k::int. cur + shortestDelta target cur = target + 360 * of_int k)
   \<and> shortestDelta (- 170) 170 = 20
   \<and> rotation (setRotation (s\<lparr>rotation := 170\<rparr>) (- 170)) = 190"
  using shortestDelta_bound[of target cur] shortestDelta_congruent[of cur target]
  by (simp add: setRotation_def fitToPath_def Let_def shortestDelta_formula[of target cur]
        shortestDelta_example)

theorem rotation_shortest_path_witness:
  "rotation (fitToPath ((newEngine 800 600)\<lparr>enableAutoRotation := False, rotation := 350\<rparr>) [''n'']) = 360
   \<and> rotation (setRotation ((newEngine 800 600)\<lparr>rotation := 170\<rparr>) (- 170)) = 190"
proof -
  let ?s = "(newEngine 800 600)\<lparr>enableAutoRotation := False, rotation := 350\<rparr>"
  have len: "length [''n''] > 0" by simp
  have tgt: "pathTargetRotation ?s [''n''] = 0"
    by (simp add: pathTargetRotation_def newEngine_def)
  have d: "shortestDelta 0 350 = 10"
    by (simp add: shortestDelta_def js_rem_def js_trunc_def Let_def)
  have r: "rotation ?s = 350" by (simp add: newEngine_def)
  from rotation_shortest_path[of ?s 0 "[''n'']" 0 0] len
  have "rotation (fitToPath ?s [''n'']) = rotation ?s + shortestDelta (pathTargetRotation ?s [''n'']) (rotation ?s)"
    by blast
  with tgt d r have a: "rotation (fitToPath ?s [''n'']) = 360" by simp
  from rotation_shortest_path[of "newEngine 800 600" 0 "[]" 0 0]
  have b: "rotation (setRotation ((newEngine 800 600)\<lparr>rotation := 170\<rparr>) (- 170)) = 190" by blast
  from a b show ?thesis by blast
qed

section \<open>The route of a call\<close>

text \<open>The route a call returns, read off the search without the camera.\<close>

definition plannedRoute :: "engine \<Rightarrow> string \<Rightarrow> string \<Rightarrow> string list option" where
  "plannedRoute s startId endId =
     (case getNode s startId of
        None \<Rightarrow> Some []
      | Some sNode \<Rightarrow>
          if targetsOf s endId = {} then Some []
          else
            (let s1 = (if adjIsEmpty s then buildGlobalGraph s else s);
                 st = runSearch s1 (node_id sNode) (targetsOf s endId)
             in case finalDestId st of
                  None \<Rightarrow> Some []
                | Some d \<Rightarrow> unshiftLoop (prev st) (Some d) []))"

lemma getNode_reset: "getNode (s\<lparr>path := p, startNode := q\<rparr>) = getNode s"
  by (auto simp: getNode_def fun_eq_iff split: option.splits)

lemma reset_frame:
  "targetsOf (s\<lparr>path := p, startNode := q\<rparr>) = targetsOf s"
  "adjIsEmpty (s\<lparr>path := p, startNode := q\<rparr>) = adjIsEmpty s"
  "buildGlobalGraph (s\<lparr>path := p, startNode := q\<rparr>) = (buildGlobalGraph s)\<lparr>path := p, startNode := q\<rparr>"
  "runSearch (s\<lparr>path := p, startNode := q\<rparr>) = runSearch s"
  by (simp_all add: getNode_reset targetsOf_def adjIsEmpty_def buildGlobalGraph_def Let_def
        runSearch_def searchGraph_def fun_eq_iff)

lemma path_fitToPath: "path (fitToPath s p) = path s"
  by (simp add: fitToPath_def Let_def)

lemma path_buildGlobalGraph: "path (buildGlobalGraph s) = path s"
  by (simp add: buildGlobalGraph_def Let_def)

lemma calculatePath_route:
  "map_option fst (calculatePath s startId endId) = plannedRoute s startId endId"
  by (auto simp: calculatePath_def plannedRoute_def Let_def getNode_reset reset_frame
        path_fitToPath path_buildGlobalGraph split: option.splits)

section \<open>Effective weights\<close>

text \<open>
  Scenario B: two nodes joined by a stairs edge of base weight 50 and an elevator edge of
  base weight 100, accessibility mode on. The stairs entry comes first in the adjacency
  lists, so the elevator entry is relaxed against the distance the stairs entry has set.
\<close>

definition plainNode :: "string \<Rightarrow> int \<Rightarrow> string \<Rightarrow> node" where
  "plainNode i f ty =
     \<lparr>node_id = i, node_originalId = i, node_floorId = f, node_x = 0, node_baseX = 0,
      node_localY = 0, node_y = 0, node_type = ty, node_name = None, node_connectionId = None\<rparr>"

definition scenarioB :: engine where
  "scenarioB =
     (newEngine 800 600)
       \<lparr>idMap := [''a'' \<mapsto> 0, ''b'' \<mapsto> 1],
        globalNodes := [plainNode ''a'' 1 ''room'', plainNode ''b'' 1 ''room''],
        adj := Some
          [(''a'', [\<lparr>adj_to = ''b'', adj_dist = 50, adj_type = Some ''stairs'', adj_barrierFreeBlocked = None\<rparr>,
                    \<lparr>adj_to = ''b'', adj_dist = 100, adj_type = Some ''elevator'', adj_barrierFreeBlocked = None\<rparr>]),
           (''b'', [\<lparr>adj_to = ''a'', adj_dist = 50, adj_type = Some ''stairs'', adj_barrierFreeBlocked = None\<rparr>,
                    \<lparr>adj_to = ''a'', adj_dist = 100, adj_type = Some ''elevator'', adj_barrierFreeBlocked = None\<rparr>])],
        accessibilityMode := True\<rparr>"

lemma scenarioB_search:
  "dists (runSearch scenarioB ''a'' {''b''}) ''b'' = Some 10"
  "prev (runSearch scenarioB ''a'' {''b''}) ''b'' = Some ''a''"
  "plannedRoute scenarioB ''a'' ''b'' = Some [''a'', ''b'']"
  by code_simp+

lemma relaxEdge_weight:
  assumes "effectiveWeight acc e = Some w" "improves (minDist + w) (dists st (adj_to e))"
  shows "dists (relaxEdge acc minId minDist e st) (adj_to e) = Some (minDist + w)"
    and "prev (relaxEdge acc minId minDist e st) (adj_to e) = Some minId"
  using assms by (simp_all add: relaxEdge_def Let_def)

text \<open>
  C3. With accessibility mode on, an elevator entry weighs \<open>dist * 0.1\<close> and a stairs
  entry \<open>dist + 50000\<close>; with the mode off, an elevator entry weighs \<open>dist + 2000\<close> and every
  other entry its \<open>dist\<close>. A relaxation that improves a neighbour sets its distance to the
  popped distance plus this weight. In Scenario B the search reaches the far node at
  distance 10, the weight of the elevator edge, and the call returns the two nodes.
\<close>

theorem effective_weight_by_mode:
  "(b \<noteq> Some True \<longrightarrow>
      effectiveWeight True \<lparr>adj_to = t, adj_dist = d, adj_type = Some ''elevator'', adj_barrierFreeBlocked = b\<rparr>
        = Some (d * 0.1))
   \<and> (b \<noteq> Some True \<longrightarrow>
      effectiveWeight True \<lparr>adj_to = t, adj_dist = d, adj_type = Some ''stairs'', adj_barrierFreeBlocked = b\<rparr>
        = Some (d + 50000))
   \<and> effectiveWeight False \<lparr>adj_to = t, adj_dist = d, adj_type = Some ''elevator'', adj_barrierFreeBlocked = b\<rparr>
        = Some (d + 2000)
   \<and> (ty \<noteq> Some ''elevator'' \<longrightarrow>
      effectiveWeight False \<lparr>adj_to = t, adj_dist = d, adj_type = ty, adj_barrierFreeBlocked = b\<rparr> = Some d)
   \<and> (effectiveWeight acc e = Some w \<and> improves (minDist + w) (dists st (adj_to e)) \<longrightarrow>
      dists (relaxEdge acc minId minDist e st) (adj_to e) = Some (minDist + w)
      \<and> prev (relaxEdge acc minId minDist e st) (adj_to e) = Some minId)
   \<and> dists (runSearch scenarioB ''a'' {''b''}) ''b'' = Some (100 * 0.1)
   \<and> prev (runSearch scenarioB ''a'' {''b''}) ''b'' = Some ''a''
   \<and> map_option fst (calculatePath scenarioB ''a'' ''b'') = Some [''a'', ''b'']"
  using relaxEdge_weight[of acc e w minDist st minId]
  by (simp add: effectiveWeight_def scenarioB_search calculatePath_route)

theorem effective_weight_by_mode_witness:
  "effectiveWeight True \<lparr>adj_to = ''b'', adj_dist = 100, adj_type = Some ''elevator'', adj_barrierFreeBlocked = None\<rparr>
     = Some 10
   \<and> effectiveWeight True \<lparr>adj_to = ''b'', adj_dist = 50, adj_type = Some ''stairs'', adj_barrierFreeBlocked = None\<rparr>
     = Some 50050
   \<and> effectiveWeight False \<lparr>adj_to = ''b'', adj_dist = 50, adj_type = Some ''stairs'', adj_barrierFreeBlocked = None\<rparr>
     = Some 50"
  using effective_weight_by_mode[of None "''b''" 100 "Some ''stairs''" True
          "\<lparr>adj_to = ''b'', adj_dist = 100, adj_type = Some ''elevator'', adj_barrierFreeBlocked = None\<rparr>"
          10 0 "initialSearch ''a''" "''a''"]
        effective_weight_by_mode[of None "''b''" 50 "Some ''stairs''" True
          "\<lparr>adj_to = ''b'', adj_dist = 100, adj_type = Some ''elevator'', adj_barrierFreeBlocked = None\<rparr>"
          10 0 "initialSearch ''a''" "''a''"]
  by simp

section \<open>Transfer edges\<close>



















section \<open>The built graph\<close>

definition entries :: "adjacency \<Rightarrow> string \<Rightarrow> adj_entry list" where
  "entries a key = (case map_of a key of None \<Rightarrow> [] | Some es \<Rightarrow> es)"

definition entryOf :: "string \<Rightarrow> edge \<Rightarrow> adj_entry" where
  "entryOf other e =
     \<lparr>adj_to = other, adj_dist = edge_dist e, adj_type = edge_type e, adj_barrierFreeBlocked = None\<rparr>"

lemma map_of_adj_ensure:
  "map_of (adj_ensure k a) = (if map_of a k = None then (map_of a)(k \<mapsto> []) else map_of a)"
  by (simp add: adj_ensure_def AList.update_conv')

lemma map_of_adj_push: "map_of (adj_push k v a) = (map_of a)(k \<mapsto> entries a k @ [v])"
  by (simp add: adj_push_def entries_def AList.update_conv')

lemma entries_adj_ensure: "entries (adj_ensure k a) key = entries a key"
  by (simp add: entries_def map_of_adj_ensure)

lemma entries_adj_push:
  "entries (adj_push k v a) key = (if key = k then entries a k @ [v] else entries a key)"
  by (simp add: entries_def map_of_adj_push)

lemma entries_addAdjacency:
  "set (entries (addAdjacency e a) key) =
     set (entries a key) \<union> (if key = edge_from e then {entryOf (edge_to e) e} else {})
       \<union> (if key = edge_to e then {entryOf (edge_from e) e} else {})"
  by (auto simp: addAdjacency_def Let_def entries_adj_push entries_adj_ensure entryOf_def)

lemma dom_addAdjacency:
  "dom (map_of (addAdjacency e a)) = dom (map_of a) \<union> {edge_from e, edge_to e}"
  by (auto simp: addAdjacency_def Let_def map_of_adj_push map_of_adj_ensure split: if_splits)

lemma entries_fold_addAdjacency:
  "set (entries (fold addAdjacency es a) key) =
     set (entries a key) \<union> {entryOf (edge_to e) e | e. e \<in> set es \<and> edge_from e = key}
       \<union> {entryOf (edge_from e) e | e. e \<in> set es \<and> edge_to e = key}"
proof (induction es arbitrary: a)
  case Nil
  show ?case by simp
next
  case (Cons e es)
  show ?case
    unfolding fold_simps Cons.IH entries_addAdjacency by auto
qed

lemma dom_fold_addAdjacency:
  "dom (map_of (fold addAdjacency es a)) = dom (map_of a) \<union> edge_from ` set es \<union> edge_to ` set es"
  by (induction es arbitrary: a) (auto simp: dom_addAdjacency)
















text \<open>
  A small venue: the four configured floors, of which floor 1 holds a stairs node \<open>A\<close> and
  a room joined by an edge flagged \<open>barrierFreeBlocked\<close>, and an edge to a node that does
  not exist; floor 2 holds a stairs node \<open>A\<close> and a room; the documents of floors 3 and 4
  fail to load.
\<close>

definition smallFetch :: "int \<rightharpoonup> floor_json" where
  "smallFetch =
     [1 \<mapsto> \<lparr>json_nodes =
               [\<lparr>json_id = ''a'', json_x = 0, json_y = 0, json_type = ''stairs'', json_name = Some ''A'',
                  json_connectionId = None\<rparr>,
                \<lparr>json_id = ''b'', json_x = 300, json_y = 0, json_type = ''room'', json_name = None,
                  json_connectionId = None\<rparr>],
             json_edges =
               [\<lparr>json_from = ''a'', json_to = ''b'', json_dist = Some 5, json_barrierFreeBlocked = True\<rparr>,
                \<lparr>json_from = ''a'', json_to = ''zz'', json_dist = None, json_barrierFreeBlocked = False\<rparr>]\<rparr>,
      2 \<mapsto> \<lparr>json_nodes =
               [\<lparr>json_id = ''a'', json_x = 0, json_y = 0, json_type = ''stairs'', json_name = Some ''A'',
                  json_connectionId = None\<rparr>,
                \<lparr>json_id = ''c'', json_x = 0, json_y = 400, json_type = ''room'', json_name = None,
                  json_connectionId = None\<rparr>],
             json_edges =
               [\<lparr>json_from = ''a'', json_to = ''c'', json_dist = Some 7, json_barrierFreeBlocked = False\<rparr>]\<rparr>]"

definition smallVenue :: engine where
  "smallVenue = loadAllData (newEngine 800 600) FLOORS Map.empty smallFetch"




section \<open>Floor layout\<close>

text \<open>The vertical room one floor takes in the stack: its scaled height and the gap below it.\<close>

definition advance :: "(int \<rightharpoonup> image) \<Rightarrow> int set \<Rightarrow> floor_conf \<Rightarrow> real" where
  "advance imgs mids c =
     baseHeight imgs (conf_id c) * (if conf_id c \<in> mids then 0.6 else 1)
       + (if conf_id c \<in> mids then defaultGap * 0.1 else defaultGap)"

definition styled :: "int set \<Rightarrow> int \<Rightarrow> real \<Rightarrow> floor_visual" where
  "styled mids i y =
     \<lparr>vis_scale = (if i \<in> mids then 0.6 else 1), vis_opacity = (if i \<in> mids then 0.3 else 1), vis_y = y\<rparr>"

lemma layoutStep_eq:
  "layoutStep imgs mids c (vis, y) = (vis(conf_id c \<mapsto> styled mids (conf_id c) y), y + advance imgs mids c)"
  by (simp add: layoutStep_def floorStyle_def styled_def advance_def)

lemma fold_layoutStep_snd:
  "snd (fold (layoutStep imgs mids) fs (vis, y)) = y + sum_list (map (advance imgs mids) fs)"
  by (induction fs arbitrary: vis y) (simp_all add: layoutStep_eq add.assoc)




lemma defaultVisuals_dom: "(defaultVisuals i \<noteq> None) = (i \<in> set (map conf_id FLOORS))"
  by (simp add: defaultVisuals_def FLOORS_def)


lemma updateFloorLayout_eq:
  "updateFloorLayout s pathNodes =
     (let r = fold (layoutStep (images s) (intermediates s pathNodes)) (sortedFloors (floorsConfig s)) (defaultVisuals, 0)
      in s\<lparr>floorVisuals := fst r, totalHeight := snd r, globalNodes := map (placeNode (fst r)) (globalNodes s)\<rparr>)"
  by (simp add: updateFloorLayout_def Let_def split: prod.splits)





lemma placeNode_fields:
  "node_id (placeNode vis n) = node_id n"
  "node_floorId (placeNode vis n) = node_floorId n"
  "node_localY (placeNode vis n) = node_localY n"
  "node_baseX (placeNode vis n) = node_baseX n"
  "vis (node_floorId n) = Some v \<Longrightarrow> node_y (placeNode vis n) = node_localY n * vis_scale v + vis_y v"
  "vis (node_floorId n) = Some v \<Longrightarrow> node_x (placeNode vis n) = node_baseX n * vis_scale v"
  by (simp_all add: placeNode_def split: option.splits)





section \<open>Floors of loaded nodes\<close>

text \<open>
  Every node that a load stores lies on a floor of the configuration the load was called
  with. The controllers call \<open>loadAllData\<close> with \<open>AppConfig.FLOORS\<close>, so the floors of the
  loaded nodes are then known to \<open>AppConfig.FLOORS\<close>.
\<close>

definition floorsKnown :: "floor_conf list \<Rightarrow> engine \<Rightarrow> bool" where
  "floorsKnown cfgs s \<longleftrightarrow> list_all (\<lambda>n. node_floorId n \<in> set (map conf_id cfgs)) (globalNodes s)"

lemma loadNode_floors:
  "floorsKnown cfgs s \<Longrightarrow> fid \<in> set (map conf_id cfgs) \<Longrightarrow> floorsKnown cfgs (loadNode fid nj s)"
  by (simp add: floorsKnown_def loadNode_def Let_def)

lemma fold_loadNode_floors:
  "floorsKnown cfgs s \<Longrightarrow> fid \<in> set (map conf_id cfgs) \<Longrightarrow> floorsKnown cfgs (fold (loadNode fid) njs s)"
  by (induction njs arbitrary: s) (simp_all add: loadNode_floors)

lemma fold_loadEdge_nodes: "globalNodes (fold (loadEdge fid) ejs s) = globalNodes s"
  by (induction ejs arbitrary: s) (simp_all add: loadEdge_def Let_def)

lemma loadFloor_floors:
  "floorsKnown cfgs s \<Longrightarrow> conf \<in> set cfgs \<Longrightarrow> floorsKnown cfgs (loadFloor fetch conf s)"
  using fold_loadNode_floors[of cfgs s "conf_id conf"]
  by (auto simp: loadFloor_def floorsKnown_def fold_loadEdge_nodes split: option.splits)

lemma fold_loadFloor_floors:
  "floorsKnown cfgs s \<Longrightarrow> set cs \<subseteq> set cfgs \<Longrightarrow> floorsKnown cfgs (fold (loadFloor fetch) cs s)"
  by (induction cs arbitrary: s) (simp_all add: loadFloor_floors)

lemma loaded_nodes_configured:
  "list_all (\<lambda>n. node_floorId n \<in> set (map conf_id cfgs)) (globalNodes (loadAllData s cfgs imgs fetch))"
proof -
  obtain offs crops currentY where f: "fold (offsetStep (restrict_map imgs (set (map conf_id cfgs)))) (sortedFloors cfgs) (Map.empty, Map.empty, 0) = (offs, crops, currentY)"
    by (metis prod_cases3)
  let ?s1 = "s\<lparr>floorsConfig := cfgs, globalNodes := [], globalEdges := [], idMap := Map.empty,
               images := restrict_map imgs (set (map conf_id cfgs)),
               floorOffsets := offs, floorCropX := crops, totalHeight := currentY\<rparr>"
  let ?s2 = "fold (loadFloor fetch) cfgs ?s1"
  have "floorsKnown cfgs ?s1" by (simp add: floorsKnown_def)
  then have k: "floorsKnown cfgs ?s2" by (rule fold_loadFloor_floors) simp
  have eq: "loadAllData s cfgs imgs fetch = updateFloorLayout (buildGlobalGraph ?s2) []"
    using f by (simp add: loadAllData_def Let_def)
  have "map node_floorId (globalNodes (updateFloorLayout (buildGlobalGraph ?s2) [])) = map node_floorId (globalNodes ?s2)"
    by (simp add: updateFloorLayout_eq Let_def buildGlobalGraph_def placeNode_fields)
  then have "set (map node_floorId (globalNodes (loadAllData s cfgs imgs fetch))) = set (map node_floorId (globalNodes ?s2))"
    unfolding eq by simp
  moreover have "set (map node_floorId (globalNodes ?s2)) \<subseteq> set (map conf_id cfgs)"
    using k unfolding floorsKnown_def list_all_iff by auto
  ultimately have "set (map node_floorId (globalNodes (loadAllData s cfgs imgs fetch))) \<subseteq> set (map conf_id cfgs)"
    by (rule ssubst)
  then show ?thesis unfolding list_all_iff by auto
qed

section \<open>Non-finite transforms\<close>

lemma isFinite_Num: "isFinite a \<longleftrightarrow> (\<exists>r. a = Num r)"
  by (cases a) auto

lemma clamp_finite: "isFinite a \<Longrightarrow> isFinite (Math_min (Math_max a (Num lo)) (Num hi))"
  by (cases a) (auto simp: Math_min_def Math_max_def)

lemma fitBounds_guard:
  "fitBounds s nodes = s
   \<or> (isFinite (t_k (transform (fitBounds s nodes))) \<and> isFinite (t_x (transform (fitBounds s nodes)))
      \<and> isFinite (t_y (transform (fitBounds s nodes))))"
proof -
  obtain minX maxX minY maxY where b: "fold boundsStep nodes (PosInf, NegInf, PosInf, NegInf) = (minX, maxX, minY, maxY)"
    by (metis prod_cases4)
  show ?thesis
    unfolding fitBounds_def b Let_def
    by (auto simp: d3_build intro!: clamp_finite split: if_splits)
qed





section \<open>Blocked edges\<close>

text \<open>
  No entry of a built adjacency cache carries \<open>barrierFreeBlocked\<close>: the edge objects that
  \<open>loadAllData\<close> stores do not copy the flag of the JSON record, and the entries are built
  from the edge objects.
\<close>

lemma buildAdjacency_unflagged:
  assumes "map_of (buildAdjacency ns es) key = Some l" "en \<in> set l"
  shows "adj_barrierFreeBlocked en = None"
proof -
  have "entries (fold (\<lambda>n a. AList.update (node_id n) [] a) ns a0) k = (if k \<in> node_id ` set ns then [] else entries a0 k)" for a0 k
    by (induction ns arbitrary: a0) (auto simp: entries_def AList.update_conv')
  then have "entries (fold (\<lambda>n a. AList.update (node_id n) [] a) ns []) key = []"
    by (simp add: entries_def)
  with assms have "en \<in> {entryOf (edge_to e) e | e. e \<in> set es \<and> edge_from e = key}
       \<union> {entryOf (edge_from e) e | e. e \<in> set es \<and> edge_to e = key}"
    using entries_fold_addAdjacency[of es "fold (\<lambda>n a. AList.update (node_id n) [] a) ns []" key]
    by (simp add: buildAdjacency_def entries_def)
  then show ?thesis by (auto simp: entryOf_def)
qed

lemma blocked_route:
  "plannedRoute (smallVenue\<lparr>accessibilityMode := True\<rparr>) ''1_b'' ''1_a'' = Some [''1_b'', ''1_a'']"
  "dists (runSearch (smallVenue\<lparr>accessibilityMode := True\<rparr>) ''1_b'' {''1_a''}) ''1_a'' = Some 5"
  "map json_barrierFreeBlocked (json_edges (the (smallFetch 1))) = [True, False]"
  "map_option (map adj_barrierFreeBlocked) (map_of (searchGraph smallVenue) ''1_b'') = Some [None]"
  by code_simp+

text \<open>An entry that did carry the flag would be skipped with accessibility mode on.\<close>

lemma blocked_entry_skipped:
  "adj_barrierFreeBlocked e = Some True \<Longrightarrow> relaxEdge True minId minDist e st = st"
  by (simp add: relaxEdge_def effectiveWeight_def)

text \<open>
  C2. In the small venue the JSON record of the edge between \<open>1_a\<close> and \<open>1_b\<close> is flagged
  \<open>barrierFreeBlocked\<close>, its adjacency entry carries no flag, and with accessibility mode on
  the search relaxes it and the call returns the route over it.
\<close>

theorem blocked_edge_traversed:
  "map json_barrierFreeBlocked (json_edges (the (smallFetch 1))) = [True, False]
   \<and> map_option (map adj_barrierFreeBlocked) (map_of (searchGraph smallVenue) ''1_b'') = Some [None]
   \<and> dists (runSearch (smallVenue\<lparr>accessibilityMode := True\<rparr>) ''1_b'' {''1_a''}) ''1_a'' = Some 5
   \<and> map_option fst (calculatePath (smallVenue\<lparr>accessibilityMode := True\<rparr>) ''1_b'' ''1_a'')
       = Some [''1_b'', ''1_a'']"
  by (simp add: blocked_route calculatePath_route)

section \<open>State reset\<close>

lemma startNode_frame:
  "startNode (fitToPath s p) = startNode s" "startNode (buildGlobalGraph s) = startNode s"
  by (simp_all add: fitToPath_def buildGlobalGraph_def Let_def)

text \<open>
  C10. A call that returns leaves the returned route in \<open>path\<close> and no start marker. When
  the start does not resolve, when the target set is empty, and when the search ends
  without a destination, the call returns the empty route and the engine holds the empty
  route, whatever route it held before.
\<close>

theorem calculatePath_resets:
  "(calculatePath s startId endId = Some (p, s') \<longrightarrow> path s' = p \<and> startNode s' = None)
   \<and> (getNode s startId = None \<longrightarrow>
        calculatePath s startId endId = Some ([], s\<lparr>path := [], startNode := None\<rparr>))
   \<and> (targetsOf s endId = {} \<longrightarrow>
        calculatePath s startId endId = Some ([], s\<lparr>path := [], startNode := None\<rparr>))
   \<and> (getNode s startId = Some sNode \<and> targetsOf s endId \<noteq> {}
        \<and> finalDestId (runSearch (if adjIsEmpty s then buildGlobalGraph s else s) (node_id sNode) (targetsOf s endId)) = None
        \<longrightarrow> calculatePath s startId endId =
              Some ([], (if adjIsEmpty s then buildGlobalGraph s else s)\<lparr>path := [], startNode := None\<rparr>))"
  by (auto simp: calculatePath_def Let_def getNode_reset reset_frame path_fitToPath path_buildGlobalGraph
        startNode_frame split: option.splits if_splits)

theorem calculatePath_resets_witness:
  "calculatePath (smallVenue\<lparr>path := [''1_a'', ''1_b''], startNode := Some 0\<rparr>) ''nowhere'' ''1_a''
     = Some ([], smallVenue\<lparr>path := [], startNode := None\<rparr>)
   \<and> path (smallVenue\<lparr>path := [], startNode := None\<rparr>) = []"
proof -
  let ?s = "smallVenue\<lparr>path := [''1_a'', ''1_b''], startNode := Some 0\<rparr>"
  have "getNode smallVenue ''nowhere'' = None" by code_simp
  then have h: "getNode ?s ''nowhere'' = None" by (simp add: getNode_reset)
  from calculatePath_resets[of ?s "''nowhere''" "''1_a''" "[]" ?s undefined] h
  show ?thesis by simp
qed

section \<open>The heap order\<close>





















section \<open>Routes\<close>



definition nonNegative :: "bool \<Rightarrow> adjacency \<Rightarrow> bool" where
  "nonNegative acc G =
     list_all (\<lambda>(key, es). list_all (\<lambda>e. case effectiveWeight acc e of None \<Rightarrow> True | Some c \<Rightarrow> 0 \<le> c) es) G"

text \<open>Base weights that are not negative give effective weights that are not negative.\<close>

lemma nonNegative_base:
  assumes "list_all (\<lambda>(key, es). list_all (\<lambda>e. 0 \<le> adj_dist e) es) G"
  shows "nonNegative acc G"
  using assms unfolding nonNegative_def list_all_iff
  by (auto simp: effectiveWeight_def split: if_splits)











section \<open>The invariant of the search\<close>














section \<open>One round of the loop\<close>

















section \<open>The loop\<close>






section \<open>Walking back\<close>



section \<open>Shortest routes\<close>

text \<open>The adjacency cache a call searches: the cache is rebuilt first when it is empty.\<close>

definition callGraph :: "engine \<Rightarrow> adjacency" where
  "callGraph s = searchGraph (if adjIsEmpty s then buildGlobalGraph s else s)"

lemma callGraph_built: "adj s = Some a \<Longrightarrow> a \<noteq> [] \<Longrightarrow> callGraph s = a"
  by (simp add: callGraph_def adjIsEmpty_def searchGraph_def)







end
